theory Spec2Isabelle
  imports Main "HOL-Library.Word" "HOL-Library.AList"
begin

section \<open>Python values used by \<open>simple_cors_proxy.py\<close>\<close>

text \<open>
  A Python \<open>str\<close> is a sequence of Unicode code points and \<open>bytes\<close> a sequence of
  octets. The request path that \<open>http.server\<close> hands to the handler only holds code
  points below 256, but percent-decoding can produce any code point, so text is a list
  of naturals and not a list of 8-bit characters.
\<close>

type_synonym pystr = "nat list"
type_synonym byte = "8 word"
type_synonym bytes = "byte list"

definition str :: "string \<Rightarrow> pystr" where
  "str s = map of_char s"

definition ord :: "char \<Rightarrow> nat" where
  "ord c = of_char c"

text \<open>\<open>s.startswith(p)\<close>.\<close>

definition startswith :: "pystr \<Rightarrow> pystr \<Rightarrow> bool" where
  "startswith s p \<longleftrightarrow> take (length p) s = p"

text \<open>
  \<open>s.split(sep)\<close> for a one-character separator: the pieces between the occurrences of
  \<open>sep\<close>; there is always at least one piece.
\<close>

fun split :: "'a \<Rightarrow> 'a list \<Rightarrow> 'a list list" where
  "split sep [] = [[]]"
| "split sep (x # xs) =
     (if x = sep then [] # split sep xs
      else (case split sep xs of
              [] \<Rightarrow> [[x]]
            | p # ps \<Rightarrow> (x # p) # ps))"

text \<open>\<open>s.replace('+', ' ')\<close>.\<close>

definition replace_plus :: "pystr \<Rightarrow> pystr" where
  "replace_plus s = map (\<lambda>c. if c = ord CHR ''+'' then ord CHR '' '' else c) s"

section \<open>\<open>urllib.parse\<close>: percent-decoding and \<open>parse_qs\<close>\<close>

subsection \<open>\<open>bytes.decode('utf-8', 'replace')\<close>\<close>

definition REPLACEMENT :: nat where
  "REPLACEMENT = 0xFFFD"

definition is_continuation :: "byte \<Rightarrow> bool" where
  "is_continuation c \<longleftrightarrow> 0x80 \<le> c \<and> c \<le> 0xBF"

text \<open>The second octet of a three-octet form: no overlong forms, no surrogates.\<close>

definition second_of_3 :: "byte \<Rightarrow> byte \<Rightarrow> bool" where
  "second_of_3 b c \<longleftrightarrow>
     is_continuation c \<and> \<not> (b = 0xE0 \<and> c < 0xA0) \<and> \<not> (b = 0xED \<and> 0xA0 \<le> c)"

text \<open>The second octet of a four-octet form: no overlong forms, nothing above U+10FFFF.\<close>

definition second_of_4 :: "byte \<Rightarrow> byte \<Rightarrow> bool" where
  "second_of_4 b c \<longleftrightarrow>
     is_continuation c \<and> \<not> (b = 0xF0 \<and> c < 0x90) \<and> \<not> (b = 0xF4 \<and> 0x90 \<le> c)"

definition low6 :: "byte \<Rightarrow> nat" where
  "low6 c = unat c mod 64"

text \<open>
  An octet that cannot start or continue a character gives U+FFFD and decoding goes on
  with the next octet; a sequence cut off by the end of the input gives one U+FFFD.
\<close>

fun utf8_decode :: "bytes \<Rightarrow> pystr" where
  "utf8_decode [] = []"
| "utf8_decode (b # bs) =
     (if b < 0x80 then unat b # utf8_decode bs
      else if b < 0xC2 then REPLACEMENT # utf8_decode bs
      else if b < 0xE0 then
        (case bs of
           [] \<Rightarrow> [REPLACEMENT]
         | c # cs \<Rightarrow>
             if is_continuation c
             then ((unat b mod 32) * 64 + low6 c) # utf8_decode cs
             else REPLACEMENT # utf8_decode bs)
      else if b < 0xF0 then
        (case bs of
           [] \<Rightarrow> [REPLACEMENT]
         | c # cs \<Rightarrow>
             if \<not> second_of_3 b c then REPLACEMENT # utf8_decode bs
             else (case cs of
                     [] \<Rightarrow> [REPLACEMENT]
                   | d # ds \<Rightarrow>
                       if is_continuation d
                       then ((unat b mod 16) * 4096 + low6 c * 64 + low6 d) # utf8_decode ds
                       else REPLACEMENT # utf8_decode cs))
      else if b < 0xF5 then
        (case bs of
           [] \<Rightarrow> [REPLACEMENT]
         | c # cs \<Rightarrow>
             if \<not> second_of_4 b c then REPLACEMENT # utf8_decode bs
             else (case cs of
                     [] \<Rightarrow> [REPLACEMENT]
                   | d # ds \<Rightarrow>
                       if \<not> is_continuation d then REPLACEMENT # utf8_decode cs
                       else (case ds of
                               [] \<Rightarrow> [REPLACEMENT]
                             | e # es \<Rightarrow>
                                 if is_continuation e
                                 then ((unat b mod 8) * 262144 + low6 c * 4096
                                         + low6 d * 64 + low6 e) # utf8_decode es
                                 else REPLACEMENT # utf8_decode ds)))
      else REPLACEMENT # utf8_decode bs)"

subsection \<open>\<open>unquote_to_bytes\<close> and \<open>unquote\<close>\<close>

text \<open>The value of a character of \<open>_hexdig = '0123456789ABCDEFabcdef'\<close>.\<close>

definition hexdig :: "byte \<Rightarrow> nat option" where
  "hexdig c =
     (if 0x30 \<le> c \<and> c \<le> 0x39 then Some (unat c - 0x30)
      else if 0x41 \<le> c \<and> c \<le> 0x46 then Some (unat c - 0x41 + 10)
      else if 0x61 \<le> c \<and> c \<le> 0x66 then Some (unat c - 0x61 + 10)
      else None)"

text \<open>
  The lookup \<open>_hextobyte[item[:2]]\<close>: \<open>KeyError\<close> (here \<open>None\<close>) unless the item starts
  with two hexadecimal digits.
\<close>

definition hextobyte :: "bytes \<Rightarrow> byte option" where
  "hextobyte item =
     (case item of
        h # l # _ \<Rightarrow>
          (case (hexdig h, hexdig l) of
             (Some x, Some y) \<Rightarrow> Some (of_nat (16 * x + y))
           | _ \<Rightarrow> None)
      | _ \<Rightarrow> None)"

text \<open>One pass of the loop \<open>for item in bits[1:]\<close>.\<close>

definition unquote_item :: "bytes \<Rightarrow> bytes" where
  "unquote_item item =
     (case hextobyte item of
        Some b \<Rightarrow> b # drop 2 item
      | None \<Rightarrow> 0x25 # item)"

definition unquote_to_bytes :: "bytes \<Rightarrow> bytes" where
  "unquote_to_bytes string =
     (if string = [] then []
      else (case split 0x25 string of
              [] \<Rightarrow> string
            | [b] \<Rightarrow> string
            | b # items \<Rightarrow> b @ concat (map unquote_item items)))"

text \<open>
  \<open>unquote\<close> cuts the text at the regular expression \<open>([\x00-\x7f]+)\<close>: every maximal
  run of ASCII characters is encoded (one octet per character), unquoted and decoded,
  and the characters between the runs are kept. \<open>run\<close> is the ASCII run read so far.
\<close>

definition unquote_ascii :: "pystr \<Rightarrow> pystr" where
  "unquote_ascii run = utf8_decode (unquote_to_bytes (map of_nat run))"

fun unquote_bits :: "pystr \<Rightarrow> pystr \<Rightarrow> pystr" where
  "unquote_bits run [] = unquote_ascii run"
| "unquote_bits run (c # cs) =
     (if c < 128 then unquote_bits (run @ [c]) cs
      else unquote_ascii run @ c # unquote_bits [] cs)"

definition unquote :: "pystr \<Rightarrow> pystr" where
  "unquote string =
     (if ord CHR ''%'' \<notin> set string then string
      else unquote_bits [] string)"

definition unquote_plus :: "pystr \<Rightarrow> pystr" where
  "unquote_plus string = unquote (replace_plus string)"

subsection \<open>\<open>parse_qsl\<close> and \<open>parse_qs\<close> with their default arguments\<close>

text \<open>
  One pass of the loop of \<open>parse_qsl\<close> over \<open>name_value\<close>, with
  \<open>keep_blank_values=False\<close> and \<open>strict_parsing=False\<close>: an empty field, a field
  without \<open>=\<close> and a field whose value is empty add nothing.
\<close>

definition field_name :: "pystr \<Rightarrow> pystr" where
  "field_name name_value = takeWhile (\<lambda>c. c \<noteq> ord CHR ''='') name_value"

definition field_value :: "pystr \<Rightarrow> pystr" where
  "field_value name_value = drop 1 (dropWhile (\<lambda>c. c \<noteq> ord CHR ''='') name_value)"

definition parse_field :: "pystr \<Rightarrow> (pystr \<times> pystr) list" where
  "parse_field name_value =
     (if name_value = [] then []
      else if ord CHR ''='' \<notin> set name_value then []
      else if field_value name_value \<noteq> []
        then [(unquote_plus (field_name name_value), unquote_plus (field_value name_value))]
      else [])"

definition parse_qsl :: "pystr \<Rightarrow> (pystr \<times> pystr) list" where
  "parse_qsl qs =
     (if qs = [] then []
      else concat (map parse_field (split (ord CHR ''&'') qs)))"

text \<open>The loop of \<open>parse_qs\<close> that fills the dictionary \<open>parsed_result\<close>.\<close>

fun collect :: "(pystr \<rightharpoonup> pystr list) \<Rightarrow> (pystr \<times> pystr) list \<Rightarrow> (pystr \<rightharpoonup> pystr list)" where
  "collect parsed_result [] = parsed_result"
| "collect parsed_result ((name, v) # pairs) =
     (case parsed_result name of
        Some vs \<Rightarrow> collect (parsed_result(name \<mapsto> vs @ [v])) pairs
      | None \<Rightarrow> collect (parsed_result(name \<mapsto> [v])) pairs)"

definition parse_qs :: "pystr \<Rightarrow> (pystr \<rightharpoonup> pystr list)" where
  "parse_qs qs = collect Map.empty (parse_qsl qs)"

section \<open>Effects of a handler method\<close>

text \<open>
  The only thing the handler uses of an exception \<open>e\<close> is \<open>str(e)\<close>. \<open>IndexError\<close> is
  what \<open>params['url'][0]\<close> raises on an empty list; \<open>Raised d\<close> is an exception
  (an instance of \<open>Exception\<close>) raised inside \<open>urllib.request\<close> with \<open>str(e) = d\<close>.
\<close>

datatype exn = IndexError | Raised pystr

fun exn_str :: "exn \<Rightarrow> pystr" where
  "exn_str IndexError = str ''list index out of range''"
| "exn_str (Raised description) = description"

text \<open>
  \<open>urllib.request.Request(url)\<close>: the constructor is called with a URL only, so its \<open>data\<close>
  is \<open>None\<close> and there are no headers.
\<close>

record Request =
  full_url :: pystr
  request_data :: "bytes option"
  header_items :: "(pystr \<times> pystr) list"


definition add_header :: "pystr \<Rightarrow> pystr \<Rightarrow> Request \<Rightarrow> Request" where
  "add_header key val req = req\<lparr>header_items := AList.update key val (header_items req)\<rparr>"

text \<open>
  The object that \<open>urlopen\<close> returns. The handler calls \<open>read()\<close> on it and nothing
  else: \<open>read_result\<close> is the exception \<open>read()\<close> raises (\<open>Inl\<close>) or the body it returns
  (\<open>Inr\<close>); the upstream's status and headers are there and are never looked at.
\<close>

record HTTPResponse =
  upstream_status :: nat
  upstream_headers :: "(pystr \<times> pystr) list"
  read_result :: "exn + bytes"

text \<open>
  What lies outside the program: \<open>Request_raises url\<close> is the exception with which
  \<open>Request(url)\<close> fails, if it does; \<open>urlopen req\<close> is \<open>Inl e\<close> when \<open>urlopen(req)\<close> raises
  \<open>e\<close> and \<open>Inr response\<close> when it returns.
\<close>

record urllib =
  Request_raises :: "pystr \<Rightarrow> exn option"
  urlopen :: "Request \<Rightarrow> exn + HTTPResponse"

text \<open>
  The handler object: the request path and the headers the caller sent
  (\<open>self.path\<close>, \<open>self.headers\<close>).
\<close>

record handler =
  path :: pystr
  headers :: "(pystr \<times> pystr) list"

text \<open>
  What a method does, in order: the calls that reach the outside. The calls of the base
  class (\<open>send_response\<close>, \<open>send_header\<close>, \<open>end_headers\<close>, \<open>wfile.write\<close>, \<open>send_error\<close>)
  and \<open>print\<close> are recorded as they are made and return; how the base class turns
  them into octets on the socket is not part of this program.
\<close>

datatype action =
    Print pystr
  | Urlopen Request
  | Send_response nat
  | Send_header pystr pystr
  | End_headers
  | Write bytes
  | Send_error nat pystr

text \<open>A run: the actions done, and the value returned (\<open>Inr\<close>) or the exception raised (\<open>Inl\<close>).\<close>

type_synonym 'a run = "action list \<times> (exn + 'a)"

definition return :: "'a \<Rightarrow> 'a run" where
  "return x = ([], Inr x)"

definition raise :: "exn \<Rightarrow> 'a run" where
  "raise e = ([], Inl e)"

definition act :: "action \<Rightarrow> unit run" where
  "act a = ([a], Inr ())"

text \<open>Sequencing: the second part runs only when the first one returns.\<close>

definition bind :: "'a run \<Rightarrow> ('a \<Rightarrow> 'b run) \<Rightarrow> 'b run" where
  "bind m f =
     (case m of
        (tr, Inl e) \<Rightarrow> (tr, Inl e)
      | (tr, Inr x) \<Rightarrow> (case f x of (tr', r) \<Rightarrow> (tr @ tr', r)))"

text \<open>\<open>try: m except Exception as e: h e\<close>.\<close>

definition try_except :: "'a run \<Rightarrow> (exn \<Rightarrow> 'a run) \<Rightarrow> 'a run" where
  "try_except m h =
     (case m of
        (tr, Inl e) \<Rightarrow> (case h e of (tr', r) \<Rightarrow> (tr @ tr', r))
      | (tr, Inr x) \<Rightarrow> (tr, Inr x))"

section \<open>\<open>CORSProxyHandler\<close>\<close>

definition USER_AGENT :: pystr where
  "USER_AGENT = str ''Mozilla/5.0 (Windows NT 10.0; Win64; x64) AppleWebKit/537.36''"

definition new_Request :: "urllib \<Rightarrow> pystr \<Rightarrow> Request run" where
  "new_Request lib url =
     (case Request_raises lib url of
        Some e \<Rightarrow> raise e
      | None \<Rightarrow> return \<lparr>full_url = url, request_data = None, header_items = []\<rparr>)"

definition call_urlopen :: "urllib \<Rightarrow> Request \<Rightarrow> HTTPResponse run" where
  "call_urlopen lib req =
     bind (act (Urlopen req)) (\<lambda>_.
       case urlopen lib req of
         Inl e \<Rightarrow> raise e
       | Inr response \<Rightarrow> return response)"

definition read :: "HTTPResponse \<Rightarrow> bytes run" where
  "read response = (case read_result response of Inl e \<Rightarrow> raise e | Inr data \<Rightarrow> return data)"

text \<open>\<open>values[0]\<close>.\<close>

definition first :: "'a list \<Rightarrow> 'a run" where
  "first vs = (case vs of [] \<Rightarrow> raise IndexError | v # _ \<Rightarrow> return v)"

text \<open>
  The fetch step, lines 29 to 33 of \<open>do_GET\<close>: build the request, set its one header,
  open it, read the whole body.
\<close>

definition fetch :: "urllib \<Rightarrow> pystr \<Rightarrow> bytes run" where
  "fetch lib target_url =
     bind (new_Request lib target_url) (\<lambda>req.
     bind (call_urlopen lib (add_header (str ''User-Agent'') USER_AGENT req)) (\<lambda>response.
     read response))"

text \<open>Lines 36 to 44 of \<open>do_GET\<close>: the reply on success.\<close>

definition relay :: "bytes \<Rightarrow> unit run" where
  "relay data =
     bind (act (Send_response 200)) (\<lambda>_.
     bind (act (Send_header (str ''Access-Control-Allow-Origin'') (str ''*''))) (\<lambda>_.
     bind (act (Send_header (str ''Access-Control-Allow-Methods'') (str ''GET, POST, OPTIONS''))) (\<lambda>_.
     bind (act (Send_header (str ''Access-Control-Allow-Headers'') (str ''Content-Type''))) (\<lambda>_.
     bind (act (Send_header (str ''Content-Type'') (str ''application/json''))) (\<lambda>_.
     bind (act End_headers) (\<lambda>_.
     act (Write data)))))))"

text \<open>The body of the \<open>try\<close> statement of \<open>do_GET\<close>.\<close>

definition do_GET_try :: "urllib \<Rightarrow> handler \<Rightarrow> unit run" where
  "do_GET_try lib self =
     (if startswith (path self) (str ''/proxy?'') then
        let query_string = drop 7 (path self);
            params = parse_qs query_string
        in (case params (str ''url'') of
              None \<Rightarrow> act (Send_error 400 (str ''Missing 'url' parameter''))
            | Some vs \<Rightarrow>
                bind (first vs) (\<lambda>target_url.
                bind (act (Print (str ''Proxying request to: '' @ target_url))) (\<lambda>_.
                bind (fetch lib target_url) (\<lambda>data.
                relay data))))
      else act (Send_error 404 (str ''Not Found'')))"

definition do_GET :: "urllib \<Rightarrow> handler \<Rightarrow> unit run" where
  "do_GET lib self =
     try_except (do_GET_try lib self) (\<lambda>e.
       bind (act (Print (str ''Error: '' @ exn_str e))) (\<lambda>_.
       act (Send_error 500 (str ''Proxy Error: '' @ exn_str e))))"


section \<open>What the caller and the upstream see of a run\<close>

fun status_of :: "action \<Rightarrow> nat list" where
  "status_of (Send_response code) = [code]"
| "status_of (Send_error code message) = [code]"
| "status_of _ = []"

fun header_of :: "action \<Rightarrow> (pystr \<times> pystr) list" where
  "header_of (Send_header keyword val) = [(keyword, val)]"
| "header_of _ = []"

fun body_of :: "action \<Rightarrow> bytes" where
  "body_of (Write data) = data"
| "body_of _ = []"

fun error_of :: "action \<Rightarrow> pystr list" where
  "error_of (Send_error code message) = [message]"
| "error_of _ = []"

fun request_of :: "action \<Rightarrow> Request list" where
  "request_of (Urlopen req) = [req]"
| "request_of _ = []"

text \<open>
  The status codes sent, the headers the handler sent, the octets it wrote as the body,
  the messages of its error replies, and the requests it sent upstream.
\<close>

definition statuses :: "action list \<Rightarrow> nat list" where
  "statuses tr = concat (map status_of tr)"

definition sent_headers :: "action list \<Rightarrow> (pystr \<times> pystr) list" where
  "sent_headers tr = concat (map header_of tr)"

definition written :: "action list \<Rightarrow> bytes" where
  "written tr = concat (map body_of tr)"

definition error_messages :: "action list \<Rightarrow> pystr list" where
  "error_messages tr = concat (map error_of tr)"

definition outbound :: "action list \<Rightarrow> Request list" where
  "outbound tr = concat (map request_of tr)"

section \<open>Example upstreams\<close>

text \<open>
  The upstream of the examples: \<open>http://example.test/data\<close> answers with the seven
  octets \<open>{"a":1}\<close> as \<open>text/plain\<close>, every other host refuses the connection, and a
  target that does not start with \<open>http://\<close> is no URL to \<open>Request\<close>.
\<close>

definition example_body :: bytes where
  "example_body = [0x7B, 0x22, 0x61, 0x22, 0x3A, 0x31, 0x7D]"

definition connection_refused :: exn where
  "connection_refused = Raised (str ''<urlopen error [Errno 111] Connection refused>'')"

definition example_upstream :: urllib where
  "example_upstream =
     \<lparr>Request_raises = (\<lambda>url.
        if startswith url (str ''http://'') then None
        else Some (Raised (str ''unknown url type''))),
      urlopen = (\<lambda>req.
        if full_url req = str ''http://example.test/data''
        then Inr \<lparr>upstream_status = 200,
                  upstream_headers = [(str ''Content-Type'', str ''text/plain'')],
                  read_result = Inr example_body\<rparr>
        else Inl connection_refused)\<rparr>"


definition GET :: "string \<Rightarrow> handler" where
  "GET p = \<lparr>path = str p, headers = [(str ''Host'', str ''localhost:8082'')]\<rparr>"

section \<open>Runs\<close>

lemma bind_Inl [simp]: "bind (tr, Inl e) f = (tr, Inl e)"
  by (simp add: bind_def)

lemma bind_Inr [simp]: "bind (tr, Inr x) f = (tr @ fst (f x), snd (f x))"
  by (simp add: bind_def split: prod.split)

lemma try_except_Inl [simp]: "try_except (tr, Inl e) h = (tr @ fst (h e), snd (h e))"
  by (simp add: try_except_def split: prod.split)

lemma try_except_Inr [simp]: "try_except (tr, Inr x) h = (tr, Inr x)"
  by (simp add: try_except_def)

lemmas run_simps = return_def raise_def act_def

lemmas seen_defs = statuses_def sent_headers_def written_def error_messages_def outbound_def

lemma seen_Nil:
  "statuses [] = []" "sent_headers [] = []" "written [] = []" "error_messages [] = []"
  "outbound [] = []"
  by (simp_all add: seen_defs)

lemma seen_Cons:
  "statuses (a # tr) = status_of a @ statuses tr"
  "sent_headers (a # tr) = header_of a @ sent_headers tr"
  "written (a # tr) = body_of a @ written tr"
  "error_messages (a # tr) = error_of a @ error_messages tr"
  "outbound (a # tr) = request_of a @ outbound tr"
  by (simp_all add: seen_defs)

lemma seen_append:
  "statuses (tr @ tr') = statuses tr @ statuses tr'"
  "sent_headers (tr @ tr') = sent_headers tr @ sent_headers tr'"
  "written (tr @ tr') = written tr @ written tr'"
  "error_messages (tr @ tr') = error_messages tr @ error_messages tr'"
  "outbound (tr @ tr') = outbound tr @ outbound tr'"
  by (simp_all add: seen_defs)

lemmas seen_simps = seen_Nil seen_Cons seen_append

section \<open>The dictionary of \<open>parse_qs\<close>\<close>

lemma collect_lookup:
  "collect m pairs k =
     (case m k of
        Some ws \<Rightarrow> Some (ws @ map snd (filter (\<lambda>p. fst p = k) pairs))
      | None \<Rightarrow>
          (if filter (\<lambda>p. fst p = k) pairs = [] then None
           else Some (map snd (filter (\<lambda>p. fst p = k) pairs))))"
proof (induction pairs arbitrary: m)
  case Nil
  show ?case by (simp split: option.split)
next
  case (Cons p pairs)
  show ?case
  proof (cases "fst p = k")
    case True
    then obtain v where p: "p = (k, v)" by (cases p) simp
    show ?thesis
      unfolding p by (cases "m k") (simp_all add: Cons.IH)
  next
    case False
    then obtain n v where p: "p = (n, v)" and n: "n \<noteq> k" by (cases p) simp
    show ?thesis
      unfolding p using n by (cases "m n") (simp_all add: Cons.IH split: option.split)
  qed
qed

lemma parse_qs_lookup:
  "parse_qs qs k =
     (if filter (\<lambda>p. fst p = k) (parse_qsl qs) = [] then None
      else Some (map snd (filter (\<lambda>p. fst p = k) (parse_qsl qs))))"
  by (simp add: parse_qs_def collect_lookup)


lemma parse_field_names:
  "(n, v) \<in> set (parse_field f) \<Longrightarrow> n = unquote_plus (field_name f) \<and> field_value f \<noteq> []"
  by (auto simp: parse_field_def split: if_splits)

lemma parse_qsl_names:
  assumes "(n, v) \<in> set (parse_qsl qs)"
  shows "\<exists>f \<in> set (split (ord CHR ''&'') qs). n = unquote_plus (field_name f) \<and> field_value f \<noteq> []"
  using assms by (auto simp: parse_qsl_def split: if_splits dest: parse_field_names)

section \<open>The fetch step\<close>

lemma fetch_eq:
  "fetch lib t =
     (case Request_raises lib t of
        Some e \<Rightarrow> ([], Inl e)
      | None \<Rightarrow>
          ([Urlopen \<lparr>full_url = t, request_data = None, header_items = [(str ''User-Agent'', USER_AGENT)]\<rparr>],
           case urlopen lib \<lparr>full_url = t, request_data = None, header_items = [(str ''User-Agent'', USER_AGENT)]\<rparr> of
             Inl e \<Rightarrow> Inl e
           | Inr response \<Rightarrow> read_result response))"
  by (simp add: fetch_def new_Request_def call_urlopen_def read_def add_header_def run_simps
      split: option.split sum.split)


lemma fetch_raises_iff:
  "snd (fetch lib t) = Inl e \<longleftrightarrow>
     Request_raises lib t = Some e
     \<or> Request_raises lib t = None
       \<and> (urlopen lib \<lparr>full_url = t, request_data = None,
                        header_items = [(str ''User-Agent'', USER_AGENT)]\<rparr> = Inl e
          \<or> (\<exists>response.
                urlopen lib \<lparr>full_url = t, request_data = None,
                              header_items = [(str ''User-Agent'', USER_AGENT)]\<rparr> = Inr response
                \<and> read_result response = Inl e))"
  by (auto simp: fetch_eq split: option.split sum.split)



section \<open>The three ways through \<open>do_GET\<close>\<close>

lemma do_GET_other_path:
  "\<not> startswith (path self) (str ''/proxy?'') \<Longrightarrow>
   do_GET lib self = ([Send_error 404 (str ''Not Found'')], Inr ())"
  by (simp add: do_GET_def do_GET_try_def run_simps)

lemma do_GET_no_url:
  "startswith (path self) (str ''/proxy?'') \<Longrightarrow>
   parse_qs (drop 7 (path self)) (str ''url'') = None \<Longrightarrow>
   do_GET lib self = ([Send_error 400 (str ''Missing 'url' parameter'')], Inr ())"
  by (simp add: do_GET_def do_GET_try_def run_simps)



section \<open>The claims of the specification\<close>









text \<open>
  \<^bold>\<open>C3.\<close> A GET whose path begins with \<open>/proxy?\<close> and whose decoded query has no
  \<open>url\<close> key: the handler answers with \<open>send_error\<close>, status 400 and the message
  \<open>Missing 'url' parameter\<close>, and \<open>urlopen\<close> is never called.
\<close>

theorem missing_url_gives_400:
  assumes "startswith (path self) (str ''/proxy?'')"
    and "parse_qs (drop 7 (path self)) (str ''url'') = None"
  shows "snd (do_GET lib self) = Inr ()
    \<and> statuses (fst (do_GET lib self)) = [400]
    \<and> error_messages (fst (do_GET lib self)) = [str ''Missing 'url' parameter'']
    \<and> outbound (fst (do_GET lib self)) = []"
  using assms by (simp add: do_GET_no_url seen_simps)

theorem missing_url_gives_400_witness:
  "startswith (path (GET ''/proxy?foo=bar'')) (str ''/proxy?'')
   \<and> parse_qs (drop 7 (path (GET ''/proxy?foo=bar''))) (str ''url'') = None
   \<and> statuses (fst (do_GET example_upstream (GET ''/proxy?foo=bar''))) = [400]
   \<and> outbound (fst (do_GET example_upstream (GET ''/proxy?foo=bar''))) = []"
proof -
  have p: "startswith (path (GET ''/proxy?foo=bar'')) (str ''/proxy?'')"
    by code_simp
  have q: "parse_qs (drop 7 (path (GET ''/proxy?foo=bar''))) (str ''url'') = None"
    by code_simp
  show ?thesis
    using missing_url_gives_400 [OF p q, of example_upstream] p q by simp
qed

text \<open>
  \<^bold>\<open>C4.\<close> A GET whose path does not begin with \<open>/proxy?\<close>: the handler answers with
  \<open>send_error\<close>, status 404 and the message \<open>Not Found\<close>, and \<open>urlopen\<close> is never
  called.
\<close>

theorem other_path_gives_404:
  assumes "\<not> startswith (path self) (str ''/proxy?'')"
  shows "snd (do_GET lib self) = Inr ()
    \<and> statuses (fst (do_GET lib self)) = [404]
    \<and> error_messages (fst (do_GET lib self)) = [str ''Not Found'']
    \<and> outbound (fst (do_GET lib self)) = []"
  using assms by (simp add: do_GET_other_path seen_simps)

theorem other_path_gives_404_witness:
  "\<not> startswith (path (GET ''/other'')) (str ''/proxy?'')
   \<and> statuses (fst (do_GET example_upstream (GET ''/other''))) = [404]
   \<and> outbound (fst (do_GET example_upstream (GET ''/other''))) = []"
proof -
  have p: "\<not> startswith (path (GET ''/other'')) (str ''/proxy?'')"
    by code_simp
  show ?thesis
    using other_path_gives_404 [OF p, of example_upstream] p by simp
qed

lemma proxy_alone: "\<not> startswith (str ''/proxy'') (str ''/proxy?'')"
  by code_simp

text \<open>
  \<^bold>\<open>C5.\<close> The claim is that a GET for the path \<open>/proxy\<close>, with no query string, is
  answered with status 400. The path \<open>/proxy\<close> does not begin with \<open>/proxy?\<close>, so the
  test of line 16 sends it to the \<open>else\<close> branch of line 47: the status is 404 and not
  400, whatever the upstream and whatever headers the caller sent, and no request goes
  upstream.
\<close>

theorem bare_proxy_path_gives_404:
  "snd (do_GET lib \<lparr>path = str ''/proxy'', headers = hs\<rparr>) = Inr ()
   \<and> statuses (fst (do_GET lib \<lparr>path = str ''/proxy'', headers = hs\<rparr>)) = [404]
   \<and> outbound (fst (do_GET lib \<lparr>path = str ''/proxy'', headers = hs\<rparr>)) = []"
  by (simp add: do_GET_other_path proxy_alone seen_simps)

text \<open>The claim as it was stated fails at this request.\<close>

theorem bare_proxy_path_is_400_counterexample:
  "statuses (fst (do_GET example_upstream (GET ''/proxy''))) \<noteq> [400]"
  by (simp add: do_GET_other_path proxy_alone GET_def seen_simps)











text \<open>
  \<^bold>\<open>C10.\<close> A GET on a \<open>/proxy?\<close> path in which every field of the query named \<open>url\<close>
  has an empty value (\<open>url=\<close>, or \<open>url\<close> with no \<open>=\<close>): \<open>parse_qs\<close> drops these fields, the
  dictionary has no \<open>url\<close> key, and the handler does what it does when the parameter is
  missing: status 400 with the message \<open>Missing 'url' parameter\<close>, and \<open>urlopen\<close> is
  never called.
\<close>

theorem blank_url_is_missing:
  assumes "startswith (path self) (str ''/proxy?'')"
    and "\<forall>f \<in> set (split (ord CHR ''&'') (drop 7 (path self))).
           unquote_plus (field_name f) = str ''url'' \<longrightarrow> field_value f = []"
  shows "parse_qs (drop 7 (path self)) (str ''url'') = None
    \<and> snd (do_GET lib self) = Inr ()
    \<and> statuses (fst (do_GET lib self)) = [400]
    \<and> error_messages (fst (do_GET lib self)) = [str ''Missing 'url' parameter'']
    \<and> outbound (fst (do_GET lib self)) = []"
proof -
  have "fst p \<noteq> str ''url''" if "p \<in> set (parse_qsl (drop 7 (path self)))" for p
  proof -
    from that have "(fst p, snd p) \<in> set (parse_qsl (drop 7 (path self)))" by simp
    from parse_qsl_names [OF this] assms(2) show ?thesis by auto
  qed
  then have "filter (\<lambda>p. fst p = str ''url'') (parse_qsl (drop 7 (path self))) = []"
    by (simp add: filter_empty_conv)
  then have none: "parse_qs (drop 7 (path self)) (str ''url'') = None"
    by (simp add: parse_qs_lookup)
  with assms(1) show ?thesis
    by (simp add: do_GET_no_url seen_simps)
qed

theorem blank_url_is_missing_witness:
  "startswith (path (GET ''/proxy?url=&foo=bar'')) (str ''/proxy?'')
   \<and> str ''url='' \<in> set (split (ord CHR ''&'') (drop 7 (path (GET ''/proxy?url=&foo=bar''))))
   \<and> statuses (fst (do_GET example_upstream (GET ''/proxy?url=&foo=bar''))) = [400]
   \<and> outbound (fst (do_GET example_upstream (GET ''/proxy?url=&foo=bar''))) = []"
proof -
  have p: "startswith (path (GET ''/proxy?url=&foo=bar'')) (str ''/proxy?'')"
    by code_simp
  have q: "\<forall>f \<in> set (split (ord CHR ''&'') (drop 7 (path (GET ''/proxy?url=&foo=bar'')))).
         unquote_plus (field_name f) = str ''url'' \<longrightarrow> field_value f = []"
    by code_simp
  have r: "str ''url='' \<in> set (split (ord CHR ''&'') (drop 7 (path (GET ''/proxy?url=&foo=bar''))))"
    by code_simp
  show ?thesis
    using blank_url_is_missing [OF p q, of example_upstream] p r by simp
qed

end
